theory Spec2Isabelle
  imports Complex_Main "HOL-Library.Word"
begin

unbundle bit_operations_syntax

section \<open>Numbers and time\<close>

text \<open>
  A C++ \<open>double\<close> (and the \<open>float\<close> coordinates of a PCL point) is either
  not-a-number or a finite value. Finite values are taken as exact reals: rounding,
  overflow to infinity and signed zeros are outside this model. A division by zero
  gives \<open>NaN\<close> here; the theorems below that read a quotient have a non-zero divisor.
\<close>

datatype double = NaN | Fin real

fun isnan :: "double \<Rightarrow> bool" where
  "isnan NaN = True"
| "isnan (Fin _) = False"

fun dadd :: "double \<Rightarrow> double \<Rightarrow> double" where
  "dadd (Fin a) (Fin b) = Fin (a + b)"
| "dadd _ _ = NaN"

fun dmul :: "double \<Rightarrow> double \<Rightarrow> double" where
  "dmul (Fin a) (Fin b) = Fin (a * b)"
| "dmul _ _ = NaN"

fun ddiv :: "double \<Rightarrow> double \<Rightarrow> double" where
  "ddiv (Fin a) (Fin b) = (if b = 0 then NaN else Fin (a / b))"
| "ddiv _ _ = NaN"

text \<open>
  \<open>ros::Time\<close> and \<open>ros::Duration\<close> count whole nanoseconds; both are integers here
  (no overflow of the 32-bit second fields). \<open>Duration::fromSec\<close> of the ROS library
  takes the whole seconds by \<open>floor\<close> and rounds the rest to the nearest nanosecond
  (older versions of the library truncate it; the durations below, \<open>0.5 s\<close> and \<open>0.25 s\<close>,
  are whole numbers of nanoseconds); \<open>Duration * double\<close> goes through \<open>toSec\<close> and
  \<open>fromSec\<close>.
\<close>

type_synonym time = int
type_synonym duration = int

definition fromSec :: "real \<Rightarrow> duration" where
  "fromSec t = \<lfloor>t\<rfloor> * 1000000000 + round ((t - of_int \<lfloor>t\<rfloor>) * 1000000000)"

definition toSec :: "duration \<Rightarrow> real" where
  "toSec d = of_int d / 1000000000"

definition duration_scale :: "duration \<Rightarrow> real \<Rightarrow> duration" where
  "duration_scale d k = fromSec (toSec d * k)"

section \<open>Matrices\<close>

text \<open>
  An Eigen dynamic matrix: its two dimensions and its coefficients. Only the
  coefficients \<open>coeff m i j\<close> with \<open>i < rows m\<close> and \<open>j < cols m\<close> exist in the program.
\<close>

record 'a matrix =
  rows :: nat
  cols :: nat
  coeff :: "nat \<Rightarrow> nat \<Rightarrow> 'a"

definition empty_matrix :: "(nat \<Rightarrow> nat \<Rightarrow> 'a) \<Rightarrow> 'a matrix" where
  "empty_matrix f = \<lparr>rows = 0, cols = 0, coeff = f\<rparr>"

text \<open>
  \<open>m.resize(r, c)\<close> leaves the coefficients indeterminate: the new contents are the
  argument \<open>fresh\<close>, about which nothing is known.
\<close>

definition resizeM :: "nat \<Rightarrow> nat \<Rightarrow> (nat \<Rightarrow> nat \<Rightarrow> 'a) \<Rightarrow> 'a matrix \<Rightarrow> 'a matrix" where
  "resizeM r c fresh m = \<lparr>rows = r, cols = c, coeff = fresh\<rparr>"

definition setConstant :: "'a \<Rightarrow> 'a matrix \<Rightarrow> 'a matrix" where
  "setConstant v m = m\<lparr>coeff := (\<lambda>i j. v)\<rparr>"

definition unaryExpr :: "('a \<Rightarrow> 'a) \<Rightarrow> 'a matrix \<Rightarrow> 'a matrix" where
  "unaryExpr f m = m\<lparr>coeff := (\<lambda>i j. f (coeff m i j))\<rparr>"

definition inside :: "'a matrix \<Rightarrow> nat \<Rightarrow> nat \<Rightarrow> bool" where
  "inside m i j = (i < rows m \<and> j < cols m)"

definition set_coeff :: "nat \<Rightarrow> nat \<Rightarrow> 'a \<Rightarrow> 'a matrix \<Rightarrow> 'a matrix" where
  "set_coeff i j v m = m\<lparr>coeff := (coeff m)(i := (coeff m i)(j := v))\<rparr>"

section \<open>The elevation map\<close>

text \<open>
  The members of class \<open>ElevationMap\<close> (the trailing underscore of the C++ names is
  dropped; \<open>length_\<close> is \<open>lengthXY\<close>). The transform to the parent frame is the
  identity with a translation, kept as that translation.
\<close>

record ElevationMap =
  pointCloudTopic :: string
  parentFrameId :: string
  elevationMapFrameId :: string
  sensorCutoffDepth :: real
  lengthXY :: "real \<times> real"
  resolution :: real
  minVariance :: real
  maxVariance :: real
  maxNoUpdateDuration :: duration
  timeOfLastUpdate :: time
  elevationMapToParentTransform :: "real \<times> real \<times> real"
  elevationData :: "double matrix"
  varianceData :: "double matrix"
  varianceDataX :: "double matrix"
  varianceDataY :: "double matrix"
  colorData :: "32 word matrix"

text \<open>A point of the cloud (\<open>pcl::PointXYZRGB\<close>) and the cloud with its header.\<close>

record PointXYZRGB =
  px :: double
  py :: double
  pz :: double
  pr :: "8 word"
  pg :: "8 word"
  pb :: "8 word"

record PointCloud =
  stamp :: time
  frame_id :: string
  points :: "PointXYZRGB list"

text \<open>
  What the node sends out: transforms on the broadcaster, map messages on the publisher
  and lines on the ROS log (the format string, without its arguments).
\<close>

record ElevationMapMsg =
  msg_stamp :: time
  msg_frame_id :: string
  msg_resolution :: real
  msg_lengthInX :: real
  msg_lengthInY :: real
  msg_elevation :: "double matrix"
  msg_variance :: "double matrix"
  msg_varianceX :: "double matrix"
  msg_varianceY :: "double matrix"
  msg_color :: "32 word matrix"

datatype level = Debug | Info | Error

datatype event =
  SendTransform "real \<times> real \<times> real" time string string
| Publish ElevationMapMsg
| Log level string

text \<open>
  What the node reads from outside during a callback: the transform listener (a failed
  lookup, which throws \<open>TransformException\<close>, is \<open>None\<close>), the number of subscribers of
  the map topic, and \<open>starleth_elevation_msg::getIndexFromPosition\<close>, a function of another
  package whose code is not part of this repository: it is a parameter (\<open>None\<close> when it
  returns false).
\<close>

record Env =
  lookupTransform :: "string \<Rightarrow> string \<Rightarrow> time \<Rightarrow>
    (double \<times> double \<times> double \<Rightarrow> double \<times> double \<times> double) option"
  getNumSubscribers :: nat
  getIndexFromPosition :: "double \<times> double \<Rightarrow> real \<times> real \<Rightarrow> real \<Rightarrow> (int \<times> int) option"

section \<open>Parameters and construction\<close>

text \<open>The parameter server: a parameter that is not set takes the default of the code.\<close>

record ParameterServer =
  point_cloud_topic :: "string option"
  map_frame_id :: "string option"
  elevation_map_id :: "string option"
  sensor_cutoff_depth :: "real option"
  length_in_x :: "real option"
  length_in_y :: "real option"
  param_resolution :: "real option"
  min_variance :: "real option"
  max_variance :: "real option"
  min_update_rate :: "real option"

definition param :: "'a option \<Rightarrow> 'a \<Rightarrow> 'a" where
  "param v d = (case v of Some a \<Rightarrow> a | None \<Rightarrow> d)"

text \<open>
  The contents of freshly allocated matrices, one per channel.
\<close>

record Fresh =
  freshElevation :: "nat \<Rightarrow> nat \<Rightarrow> double"
  freshVariance :: "nat \<Rightarrow> nat \<Rightarrow> double"
  freshVarianceX :: "nat \<Rightarrow> nat \<Rightarrow> double"
  freshVarianceY :: "nat \<Rightarrow> nat \<Rightarrow> double"
  freshColor :: "nat \<Rightarrow> nat \<Rightarrow> 32 word"

text \<open>
  \<open>readParameters\<close>: a failed \<open>ROS_ASSERT\<close> stops the node (\<open>None\<close>). The matrices are
  still the empty ones of the default constructors and the time of the last update is
  the zero of \<open>ros::Time()\<close>.
\<close>

definition readParameters :: "ParameterServer \<Rightarrow> Fresh \<Rightarrow> ElevationMap option" where
  "readParameters ps fr =
    (let res = param (param_resolution ps) (1 / 100);
         minV = param (min_variance ps) (1 / 1000);
         maxV = param (max_variance ps) (1 / 2);
         minUpdateRate = param (min_update_rate ps) 2
     in if res > 0 \<and> minV > 0 \<and> maxV > 0 \<and> minUpdateRate > 0
        then Some \<lparr>pointCloudTopic = param (point_cloud_topic ps) ''/depth_registered/points_throttled'',
                    parentFrameId = param (map_frame_id ps) ''/map'',
                    elevationMapFrameId = param (elevation_map_id ps) ''/elevation_map'',
                    sensorCutoffDepth = param (sensor_cutoff_depth ps) 3,
                    lengthXY = (param (length_in_x ps) 3, param (length_in_y ps) 3),
                    resolution = res,
                    minVariance = minV,
                    maxVariance = maxV,
                    maxNoUpdateDuration = fromSec (1 / minUpdateRate),
                    timeOfLastUpdate = 0,
                    elevationMapToParentTransform = (8 / 10, 0, 0),
                    elevationData = empty_matrix (freshElevation fr),
                    varianceData = empty_matrix (freshVariance fr),
                    varianceDataX = empty_matrix (freshVarianceX fr),
                    varianceDataY = empty_matrix (freshVarianceY fr),
                    colorData = empty_matrix (freshColor fr)\<rparr>
        else None)"

section \<open>The operations of the map\<close>

definition broadcastElevationMapTransform :: "time \<Rightarrow> ElevationMap \<Rightarrow> bool \<times> event list" where
  "broadcastElevationMapTransform t s =
    (True, [SendTransform (elevationMapToParentTransform s) t (parentFrameId s) (elevationMapFrameId s),
            Log Debug ''Published transform for elevation map in parent frame at time %f.''])"

text \<open>
  \<open>static_cast<int>\<close> of a double truncates toward zero and is undefined (\<open>None\<close>) when
  the result is no 32-bit integer.
\<close>

definition static_cast_int :: "real \<Rightarrow> int option" where
  "static_cast_int v =
    (let t = (if v \<ge> 0 then \<lfloor>v\<rfloor> else \<lceil>v\<rceil>)
     in if - 2147483648 \<le> t \<and> t \<le> 2147483647 then Some t else None)"

text \<open>
  \<open>resize\<close>: with a resolution of zero the quotient is no number that the cast is defined
  on, and Eigen refuses a negative dimension; both are \<open>None\<close>.
\<close>

definition resize :: "real \<times> real \<Rightarrow> Fresh \<Rightarrow> ElevationMap \<Rightarrow> (bool \<times> ElevationMap \<times> event list) option" where
  "resize len fr s =
    (if resolution s = 0 then None
     else case (static_cast_int (fst len / resolution s), static_cast_int (snd len / resolution s)) of
       (Some nRows, Some nCols) \<Rightarrow>
         if nRows < 0 \<or> nCols < 0 then None
         else Some (True,
           s\<lparr>lengthXY := len,
             elevationData := resizeM (nat nRows) (nat nCols) (freshElevation fr) (elevationData s),
             varianceData := resizeM (nat nRows) (nat nCols) (freshVariance fr) (varianceData s),
             varianceDataX := resizeM (nat nRows) (nat nCols) (freshVarianceX fr) (varianceDataX s),
             varianceDataY := resizeM (nat nRows) (nat nCols) (freshVarianceY fr) (varianceDataY s),
             colorData := resizeM (nat nRows) (nat nCols) (freshColor fr) (colorData s)\<rparr>,
           [Log Debug ''Elevation map matrix resized to %i rows and %i columns.''])
     | _ \<Rightarrow> None)"

definition reset :: "ElevationMap \<Rightarrow> bool \<times> ElevationMap" where
  "reset s =
    (True,
     s\<lparr>elevationData := setConstant NaN (elevationData s),
       varianceData := setConstant NaN (varianceData s),
       varianceDataX := setConstant NaN (varianceDataX s),
       varianceDataY := setConstant NaN (varianceDataY s),
       colorData := setConstant 0 (colorData s)\<rparr>)"

text \<open>\<open>initialize\<close>, at the time \<open>now\<close> that \<open>Time::now()\<close> returns.\<close>

definition initialize :: "time \<Rightarrow> Fresh \<Rightarrow> ElevationMap \<Rightarrow> (bool \<times> ElevationMap \<times> event list) option" where
  "initialize now fr s =
    (case resize (lengthXY s) fr s of
       None \<Rightarrow> None
     | Some (_, s1, ev1) \<Rightarrow>
         let (_, s2) = reset s1;
             (_, ev2) = broadcastElevationMapTransform now s2
         in Some (True, s2, ev1 @ ev2 @ [Log Info ''StarlETH elevation map node initialized.'']))"

text \<open>
  The constructor: the state after it, the period of the map update timer it creates
  and what it sent.
\<close>

definition constructElevationMap :: "ParameterServer \<Rightarrow> time \<Rightarrow> Fresh \<Rightarrow> (ElevationMap \<times> duration \<times> event list) option" where
  "constructElevationMap ps now fr =
    (case readParameters ps fr of
       None \<Rightarrow> None
     | Some s0 \<Rightarrow>
         (case initialize now fr s0 of
            None \<Rightarrow> None
          | Some (_, s1, ev) \<Rightarrow>
              Some (s1, duration_scale (maxNoUpdateDuration s0) (1 / 2),
                    Log Info ''StarlETH elevation map node started.'' # ev)))"

text \<open>
  Modelled from the spec: \<open>VarianceClampOperator\<close> is declared in \<open>ElevationMap.hpp\<close>,
  which is not among the sources. The growth step "clamps every variance value into
  \<open>[minVariance, maxVariance]\<close>": a value below the lower bound becomes the lower bound, a
  value above the upper bound becomes the upper bound, and not-a-number, for which both
  comparisons are false, stays as it is.
\<close>

definition VarianceClampOperator :: "real \<Rightarrow> real \<Rightarrow> double \<Rightarrow> double" where
  "VarianceClampOperator lo hi v =
    (case v of NaN \<Rightarrow> NaN
     | Fin a \<Rightarrow> Fin (if a < lo then lo else if a > hi then hi else a))"

definition processNoise :: double where
  "processNoise = Fin (5 / 1000)"

definition updateProcessNoise :: "time \<Rightarrow> ElevationMap \<Rightarrow> bool \<times> ElevationMap" where
  "updateProcessNoise t s =
    (let s1 = s\<lparr>varianceData := unaryExpr (\<lambda>v. dadd v processNoise) (varianceData s)\<rparr>;
         s2 = s1\<lparr>varianceDataX := unaryExpr (\<lambda>v. dadd v processNoise) (varianceDataX s1)\<rparr>;
         s3 = s2\<lparr>varianceDataY := unaryExpr (\<lambda>v. dadd v processNoise) (varianceDataY s2)\<rparr>;
         s4 = s3\<lparr>varianceData :=
                unaryExpr (VarianceClampOperator (minVariance s3) (maxVariance s3)) (varianceData s3)\<rparr>
     in (True, s4))"

text \<open>
  \<open>cleanPointCloud\<close>: the pass-through filter of PCL on the field \<open>z\<close> keeps the points
  whose three coordinates are numbers and whose \<open>z\<close> lies within the limits, bounds
  included.
\<close>

definition passThrough :: "real \<Rightarrow> real \<Rightarrow> PointXYZRGB \<Rightarrow> bool" where
  "passThrough lo hi p =
    (case (px p, py p, pz p) of
       (Fin _, Fin _, Fin c) \<Rightarrow> lo \<le> c \<and> c \<le> hi
     | _ \<Rightarrow> False)"

definition cleanPointCloud :: "ElevationMap \<Rightarrow> PointCloud \<Rightarrow> bool \<times> PointCloud \<times> event list" where
  "cleanPointCloud s cloud =
    (True, cloud\<lparr>points := filter (passThrough 0 (sensorCutoffDepth s)) (points cloud)\<rparr>,
     [Log Debug ''ElevationMap: cleanPointCloud() reduced point cloud to %i points.''])"

definition transformPoint ::
  "(double \<times> double \<times> double \<Rightarrow> double \<times> double \<times> double) \<Rightarrow> PointXYZRGB \<Rightarrow> PointXYZRGB" where
  "transformPoint f p =
    (case f (px p, py p, pz p) of (a, b, c) \<Rightarrow> p\<lparr>px := a, py := b, pz := c\<rparr>)"

definition transformPointCloud :: "Env \<Rightarrow> ElevationMap \<Rightarrow> PointCloud \<Rightarrow> string \<Rightarrow> bool \<times> PointCloud \<times> event list" where
  "transformPointCloud env s cloud targetFrame =
    (case lookupTransform env targetFrame (frame_id cloud) (stamp cloud) of
       Some f \<Rightarrow>
         (True, cloud\<lparr>points := map (transformPoint f) (points cloud), frame_id := targetFrame\<rparr>,
          [Log Debug ''ElevationMap: Point cloud transformed for time stamp %f.''])
     | None \<Rightarrow> (False, cloud, [Log Error ''%s'']))"

subsection \<open>Fusion\<close>

text \<open>
  The five coefficients that the body of the loop of \<open>addToElevationMap\<close> takes
  references to, and the body itself.
\<close>

record Cell =
  elevation :: double
  variance :: double
  varianceX :: double
  varianceY :: double
  color :: "32 word"

definition measurementVariance :: double where
  "measurementVariance = Fin (3 / 10)"

definition packColor :: "PointXYZRGB \<Rightarrow> 32 word" where
  "packColor point = push_bit 16 (ucast (pr point)) OR push_bit 8 (ucast (pg point)) OR ucast (pb point)"

definition fuse :: "PointXYZRGB \<Rightarrow> Cell \<Rightarrow> Cell" where
  "fuse point c =
    (let c' =
       (if isnan (elevation c)
        then c\<lparr>elevation := pz point,
               variance := measurementVariance,
               varianceX := measurementVariance,
               varianceY := measurementVariance\<rparr>
        else
          let c1 = c\<lparr>elevation :=
                 ddiv (dadd (dmul (variance c) (pz point)) (dmul measurementVariance (elevation c)))
                      (dadd (variance c) measurementVariance)\<rparr>;
              c2 = c1\<lparr>variance :=
                 ddiv (dmul measurementVariance (variance c1)) (dadd measurementVariance (variance c1))\<rparr>;
              c3 = c2\<lparr>varianceX :=
                 ddiv (dmul measurementVariance (variance c2)) (dadd measurementVariance (variance c2))\<rparr>
          in c3\<lparr>varianceY :=
                 ddiv (dmul measurementVariance (variance c3)) (dadd measurementVariance (variance c3))\<rparr>)
     in c'\<lparr>color := packColor point\<rparr>)"

definition cell_at :: "ElevationMap \<Rightarrow> nat \<Rightarrow> nat \<Rightarrow> Cell" where
  "cell_at s i j =
    \<lparr>elevation = coeff (elevationData s) i j,
     variance = coeff (varianceData s) i j,
     varianceX = coeff (varianceDataX s) i j,
     varianceY = coeff (varianceDataY s) i j,
     color = coeff (colorData s) i j\<rparr>"

definition store_cell :: "nat \<Rightarrow> nat \<Rightarrow> Cell \<Rightarrow> ElevationMap \<Rightarrow> ElevationMap" where
  "store_cell i j c s =
    s\<lparr>elevationData := set_coeff i j (elevation c) (elevationData s),
      varianceData := set_coeff i j (variance c) (varianceData s),
      varianceDataX := set_coeff i j (varianceX c) (varianceDataX s),
      varianceDataY := set_coeff i j (varianceY c) (varianceDataY s),
      colorData := set_coeff i j (color c) (colorData s)\<rparr>"

definition has_cell :: "ElevationMap \<Rightarrow> int \<Rightarrow> int \<Rightarrow> bool" where
  "has_cell s i j =
    (0 \<le> i \<and> 0 \<le> j \<and>
     inside (elevationData s) (nat i) (nat j) \<and> inside (varianceData s) (nat i) (nat j) \<and>
     inside (varianceDataX s) (nat i) (nat j) \<and> inside (varianceDataY s) (nat i) (nat j) \<and>
     inside (colorData s) (nat i) (nat j))"

text \<open>
  The loop over the points. A point for which \<open>getIndexFromPosition\<close> returns false is
  skipped. An index that is not in a matrix is outside what Eigen defines: the result is
  \<open>None\<close>.
\<close>

fun addPoints :: "Env \<Rightarrow> PointXYZRGB list \<Rightarrow> ElevationMap \<Rightarrow> ElevationMap option" where
  "addPoints env [] s = Some s"
| "addPoints env (point # rest) s =
    (case getIndexFromPosition env (px point, py point) (lengthXY s) (resolution s) of
       None \<Rightarrow> addPoints env rest s
     | Some (i, j) \<Rightarrow>
         if has_cell s i j
         then addPoints env rest (store_cell (nat i) (nat j) (fuse point (cell_at s (nat i) (nat j))) s)
         else None)"

definition addToElevationMap :: "Env \<Rightarrow> PointCloud \<Rightarrow> ElevationMap \<Rightarrow> (bool \<times> ElevationMap) option" where
  "addToElevationMap env cloud s =
    (case addPoints env (points cloud) s of
       None \<Rightarrow> None
     | Some s' \<Rightarrow> Some (True, s'))"

subsection \<open>Publishing\<close>

definition elevationMapMessage :: "ElevationMap \<Rightarrow> ElevationMapMsg" where
  "elevationMapMessage s =
    \<lparr>msg_stamp = timeOfLastUpdate s,
     msg_frame_id = elevationMapFrameId s,
     msg_resolution = resolution s,
     msg_lengthInX = fst (lengthXY s),
     msg_lengthInY = snd (lengthXY s),
     msg_elevation = elevationData s,
     msg_variance = varianceData s,
     msg_varianceX = varianceDataX s,
     msg_varianceY = varianceDataY s,
     msg_color = colorData s\<rparr>"

definition publishElevationMap :: "Env \<Rightarrow> ElevationMap \<Rightarrow> bool \<times> event list" where
  "publishElevationMap env s =
    (if getNumSubscribers env < 1 then (False, [])
     else (True, [Publish (elevationMapMessage s), Log Debug ''Elevation map has been published.'']))"

subsection \<open>The callbacks\<close>

text \<open>\<open>if (!ok) ROS_ERROR(msg)\<close>.\<close>

definition errorUnless :: "bool \<Rightarrow> string \<Rightarrow> event list" where
  "errorUnless ok msg = (if ok then [] else [Log Error msg])"

definition setTimeOfLastUpdate :: "time \<Rightarrow> ElevationMap \<Rightarrow> ElevationMap" where
  "setTimeOfLastUpdate t s = s\<lparr>timeOfLastUpdate := t\<rparr>"

text \<open>
  The body of \<open>pointCloudCallback\<close> after the conversion of the message, with the process
  noise step as an argument; \<open>pointCloudCallback\<close> is the body with \<open>updateProcessNoise\<close>.
  The result is the state after the callback and what was sent, in order.
\<close>

definition callbackProcedure ::
  "(time \<Rightarrow> ElevationMap \<Rightarrow> bool \<times> ElevationMap) \<Rightarrow> Env \<Rightarrow> PointCloud \<Rightarrow> ElevationMap
     \<Rightarrow> (ElevationMap \<times> event list) option" where
  "callbackProcedure noise env cloud s =
    (let ev0 = [Log Debug ''ElevationMap received a point cloud (%i points) for elevation mapping.''];
         t = stamp cloud;
         (ok1, ev1) = broadcastElevationMapTransform t s;
         ev1' = ev1 @ errorUnless ok1 ''ElevationMap: Broadcasting elevation map transform to parent failed.'';
         (ok2, s2) = noise t s
     in if \<not> ok2
        then Some (s2, ev0 @ ev1' @ [Log Error ''ElevationMap: Updating process noise failed.''])
        else
          let s3 = setTimeOfLastUpdate t s2;
              (_, cloud3, ev3) = cleanPointCloud s3 cloud;
              (ok4, cloud4, ev4) = transformPointCloud env s3 cloud3 (elevationMapFrameId s3)
          in case (if \<not> ok4
                   then Some (s3, [Log Error ''ElevationMap: Point cloud transform failed for time stamp %f.''])
                   else (case addToElevationMap env cloud4 s3 of
                           None \<Rightarrow> None
                         | Some (ok5, s5) \<Rightarrow>
                             Some (s5, errorUnless ok5 ''ElevationMap: Adding point cloud to elevation map failed.''))) of
               None \<Rightarrow> None
             | Some (s6, ev5) \<Rightarrow>
                 let (ok6, ev6) = publishElevationMap env s6
                 in Some (s6, ev0 @ ev1' @ ev3 @ ev4 @ ev5 @ ev6 @
                              errorUnless ok6 ''ElevationMap: Broadcasting elevation map failed.''))"

definition pointCloudCallback :: "Env \<Rightarrow> PointCloud \<Rightarrow> ElevationMap \<Rightarrow> (ElevationMap \<times> event list) option" where
  "pointCloudCallback = callbackProcedure updateProcessNoise"

text \<open>
  \<open>mapUpdateTimerCallback\<close>: \<open>now\<close> is what the first call of \<open>Time::now()\<close> returns, in the
  test, and \<open>time\<close> what the second returns, for the transform.
\<close>

definition mapUpdateTimerCallback :: "time \<Rightarrow> time \<Rightarrow> ElevationMap \<Rightarrow> ElevationMap \<times> event list" where
  "mapUpdateTimerCallback now time s =
    (if now - timeOfLastUpdate s < maxNoUpdateDuration s then (s, [])
     else
       let (ok, ev) = broadcastElevationMapTransform time s
       in (s, Log Debug ''Elevation map is updated without data from the sensor.'' # ev @
              errorUnless ok ''ElevationMap: Broadcasting elevation map transform to parent failed.''))"

section \<open>Notions for the statements\<close>

text \<open>The comparison \<open><\<close> of two doubles: false when one of them is not a number.\<close>

definition dless :: "double \<Rightarrow> double \<Rightarrow> bool" where
  "dless a b = (case (a, b) of (Fin u, Fin w) \<Rightarrow> u < w | _ \<Rightarrow> False)"

text \<open>The map after the process noise step.\<close>

definition grow :: "time \<Rightarrow> ElevationMap \<Rightarrow> ElevationMap" where
  "grow t s = snd (updateProcessNoise t s)"

text \<open>
  What \<open>pointCloudCallback\<close> sends before it looks at the cloud, and what its last step
  sends: the map message, or the error that it logs when \<open>publishElevationMap\<close> returns
  false.
\<close>

definition callbackPrefix :: "time \<Rightarrow> ElevationMap \<Rightarrow> event list" where
  "callbackPrefix t s =
    [Log Debug ''ElevationMap received a point cloud (%i points) for elevation mapping.'',
     SendTransform (elevationMapToParentTransform s) t (parentFrameId s) (elevationMapFrameId s),
     Log Debug ''Published transform for elevation map in parent frame at time %f.'']"

definition publishEvents :: "Env \<Rightarrow> ElevationMap \<Rightarrow> event list" where
  "publishEvents env s =
    (if getNumSubscribers env < 1 then [Log Error ''ElevationMap: Broadcasting elevation map failed.'']
     else [Publish (elevationMapMessage s), Log Debug ''Elevation map has been published.''])"

text \<open>
  The states of the node: the one after the constructor, and those after a callback on a
  state of the node, for any cloud, any environment and any time of the timer.
\<close>

inductive reachable :: "ElevationMap \<Rightarrow> bool" where
  constructed: "constructElevationMap ps now fr = Some (s, period, ev) \<Longrightarrow> reachable s"
| cloud: "reachable s \<Longrightarrow> pointCloudCallback env cloud s = Some (s', ev) \<Longrightarrow> reachable s'"
| timer: "reachable s \<Longrightarrow> mapUpdateTimerCallback now time s = (s', ev) \<Longrightarrow> reachable s'"

text \<open>
  The times of the transforms among the events, and what a sequence of firings of the
  map update timer sends, each firing reading the same time twice.
\<close>

fun broadcastTimes :: "event list \<Rightarrow> time list" where
  "broadcastTimes [] = []"
| "broadcastTimes (SendTransform tr t parent child # ev) = t # broadcastTimes ev"
| "broadcastTimes (Publish m # ev) = broadcastTimes ev"
| "broadcastTimes (Log l m # ev) = broadcastTimes ev"

fun timerFirings :: "time list \<Rightarrow> ElevationMap \<Rightarrow> event list" where
  "timerFirings [] s = []"
| "timerFirings (now # rest) s =
     (case mapUpdateTimerCallback now now s of (s', ev) \<Rightarrow> ev @ timerFirings rest s')"

section \<open>Example inputs\<close>

text \<open>
  A parameter server with no parameter set, and the map that the constructor builds
  from it: 300 by 300 cells, nothing observed.
\<close>

definition no_parameters :: ParameterServer where
  "no_parameters =
    \<lparr>point_cloud_topic = None, map_frame_id = None, elevation_map_id = None,
     sensor_cutoff_depth = None, length_in_x = None, length_in_y = None,
     param_resolution = None, min_variance = None, max_variance = None,
     min_update_rate = None\<rparr>"

definition fresh0 :: Fresh where
  "fresh0 =
    \<lparr>freshElevation = (\<lambda>i j. Fin 7), freshVariance = (\<lambda>i j. Fin 7),
     freshVarianceX = (\<lambda>i j. Fin 7), freshVarianceY = (\<lambda>i j. Fin 8),
     freshColor = (\<lambda>i j. 7)\<rparr>"

definition default_map :: ElevationMap where
  "default_map =
    \<lparr>pointCloudTopic = ''/depth_registered/points_throttled'',
     parentFrameId = ''/map'',
     elevationMapFrameId = ''/elevation_map'',
     sensorCutoffDepth = 3,
     lengthXY = (3, 3),
     resolution = 1 / 100,
     minVariance = 1 / 1000,
     maxVariance = 1 / 2,
     maxNoUpdateDuration = 500000000,
     timeOfLastUpdate = 0,
     elevationMapToParentTransform = (8 / 10, 0, 0),
     elevationData = \<lparr>rows = 300, cols = 300, coeff = (\<lambda>i j. NaN)\<rparr>,
     varianceData = \<lparr>rows = 300, cols = 300, coeff = (\<lambda>i j. NaN)\<rparr>,
     varianceDataX = \<lparr>rows = 300, cols = 300, coeff = (\<lambda>i j. NaN)\<rparr>,
     varianceDataY = \<lparr>rows = 300, cols = 300, coeff = (\<lambda>i j. NaN)\<rparr>,
     colorData = \<lparr>rows = 300, cols = 300, coeff = (\<lambda>i j. 0)\<rparr>\<rparr>"

text \<open>
  Modelled from the spec: an instance of \<open>getIndexFromPosition\<close>, whose code is missing,
  for the examples only. The spec says that the grid is centred on the origin of the
  frame and that a position maps to a cell only if it falls within
  \<open>[-lengthX/2, lengthX/2) \<times> [-lengthY/2, lengthY/2)\<close>. The cells are counted from the
  lower corner here, which the spec leaves open.
\<close>

definition centered_index :: "double \<times> double \<Rightarrow> real \<times> real \<Rightarrow> real \<Rightarrow> (int \<times> int) option" where
  "centered_index pos len res =
    (case pos of
       (Fin a, Fin b) \<Rightarrow>
         if - fst len / 2 \<le> a \<and> a < fst len / 2 \<and> - snd len / 2 \<le> b \<and> b < snd len / 2
         then Some (\<lfloor>(a + fst len / 2) / res\<rfloor>, \<lfloor>(b + snd len / 2) / res\<rfloor>)
         else None
     | _ \<Rightarrow> None)"

text \<open>
  An environment in which the transform lookup succeeds with the identity or fails, with
  \<open>n\<close> subscribers; a point in the corner cell \<open>(0, 0)\<close> of the default map; a cloud.
\<close>

definition example_env :: "bool \<Rightarrow> nat \<Rightarrow> Env" where
  "example_env ok n =
    \<lparr>lookupTransform = (\<lambda>target source t. if ok then Some (\<lambda>v. v) else None),
     getNumSubscribers = n,
     getIndexFromPosition = centered_index\<rparr>"

definition corner_point :: PointXYZRGB where
  "corner_point = \<lparr>px = Fin (- 3 / 2), py = Fin (- 3 / 2), pz = Fin 1, pr = 255, pg = 128, pb = 0\<rparr>"

definition cloud_of :: "PointXYZRGB list \<Rightarrow> PointCloud" where
  "cloud_of ps = \<lparr>stamp = 600000000, frame_id = ''/camera'', points = ps\<rparr>"

text \<open>
  A cell that was never observed, and the cell that the point in the corner leaves when
  it is fused into it.
\<close>

definition unobserved :: Cell where
  "unobserved = \<lparr>elevation = NaN, variance = NaN, varianceX = NaN, varianceY = NaN, color = 0\<rparr>"

definition observed_cell :: Cell where
  "observed_cell = \<lparr>elevation = Fin 1, variance = Fin (3 / 10), varianceX = Fin (3 / 10),
     varianceY = Fin (3 / 10), color = 16744448\<rparr>"



section \<open>Facts about the operations\<close>

subsection \<open>One fusion step\<close>

lemma dless_Fin [simp]: "dless (Fin a) (Fin b) = (a < b)"
  by (simp add: dless_def)

lemma fuse_cold:
  "isnan (elevation c) \<Longrightarrow>
   fuse p c = c\<lparr>elevation := pz p, variance := measurementVariance,
     varianceX := measurementVariance, varianceY := measurementVariance, color := packColor p\<rparr>"
  by (simp add: fuse_def)

lemma fuse_variances:
  assumes "\<not> isnan (elevation c)" and "variance c = Fin v" and "0 \<le> v"
  shows "variance (fuse p c) = Fin (3 / 10 * v / (3 / 10 + v))"
    and "varianceX (fuse p c) = Fin (3 / 10 * (3 / 10 * v / (3 / 10 + v)) / (3 / 10 + 3 / 10 * v / (3 / 10 + v)))"
    and "varianceY (fuse p c) = Fin (3 / 10 * (3 / 10 * v / (3 / 10 + v)) / (3 / 10 + 3 / 10 * v / (3 / 10 + v)))"
proof -
  have a: "3 / 10 + v \<noteq> 0" using assms(3) by auto
  have "0 \<le> 3 / 10 * v / (3 / 10 + v)" using assms(3) by simp
  then have b: "3 / 10 + 3 / 10 * v / (3 / 10 + v) \<noteq> 0" by linarith
  show "variance (fuse p c) = Fin (3 / 10 * v / (3 / 10 + v))"
    using assms(1,2) a by (simp add: fuse_def measurementVariance_def Let_def)
  show "varianceX (fuse p c) = Fin (3 / 10 * (3 / 10 * v / (3 / 10 + v)) / (3 / 10 + 3 / 10 * v / (3 / 10 + v)))"
    using assms(1,2) a b by (simp add: fuse_def measurementVariance_def Let_def)
  show "varianceY (fuse p c) = Fin (3 / 10 * (3 / 10 * v / (3 / 10 + v)) / (3 / 10 + 3 / 10 * v / (3 / 10 + v)))"
    using assms(1,2) a b by (simp add: fuse_def measurementVariance_def Let_def)
qed

lemma fuse_same_elevation:
  assumes "elevation c = Fin z" and "variance c = Fin v" and "0 < v" and "pz p = Fin z"
  shows "elevation (fuse p c) = Fin z"
proof -
  have a: "v + 3 / 10 \<noteq> 0" using assms(3) by auto
  have "(v * z + 3 / 10 * z) / (v + 3 / 10) = z"
    using a by (simp add: field_simps)
  then show ?thesis
    using assms(1,2,4) a by (simp add: fuse_def measurementVariance_def Let_def)
qed

lemma harmonic_step:
  fixes a v d :: real
  assumes "0 < a" and "0 < v" and "0 < d"
  shows "a * (a * v / d) / (a + a * v / d) = a * v / (d + v)"
proof -
  have "a + a * v / d = a * (d + v) / d"
    using assms(3) by (simp add: field_simps)
  then have "a * (a * v / d) / (a + a * v / d) = (a * (a * v / d)) / (a * (d + v) / d)"
    by simp
  also have "\<dots> = a * v / (d + v)"
  proof -
    have nz: "a \<noteq> 0" "d \<noteq> 0" "d + v \<noteq> 0" using assms by auto
    then show ?thesis by (simp add: divide_simps)
  qed
  finally show ?thesis .
qed

lemma fuse_iter_observed:
  assumes "elevation c = Fin z" and "variance c = Fin v" and "0 < v" and "pz p = Fin z"
  shows "elevation ((fuse p ^^ n) c) = Fin z \<and>
         variance ((fuse p ^^ n) c) = Fin (3 / 10 * v / (3 / 10 + of_nat n * v))"
proof (induction n)
  case 0
  show ?case using assms by simp
next
  case (Suc n)
  let ?c = "(fuse p ^^ n) c"
  let ?w = "3 / 10 * v / (3 / 10 + of_nat n * v)"
  have pos: "0 < 3 / 10 + of_nat n * v" using assms(3) by (simp add: add_pos_nonneg)
  have w: "0 < ?w" using assms(3) pos by simp
  have e: "elevation (fuse p ?c) = Fin z"
    using Suc w assms(4) by (intro fuse_same_elevation[where v = ?w]) auto
  have "variance (fuse p ?c) = Fin (3 / 10 * ?w / (3 / 10 + ?w))"
    using Suc w by (intro fuse_variances(1)) auto
  moreover have "3 / 10 * ?w / (3 / 10 + ?w) = 3 / 10 * v / (3 / 10 + of_nat (Suc n) * v)"
    using harmonic_step[of "3 / 10" v "3 / 10 + of_nat n * v"] pos assms(3)
    by (simp add: algebra_simps)
  ultimately show ?case using e by simp
qed

lemma fuse_iter_unobserved:
  assumes "isnan (elevation c)" and "pz p = Fin z"
  shows "elevation ((fuse p ^^ Suc n) c) = Fin z \<and>
         variance ((fuse p ^^ Suc n) c) = Fin (3 / 10 / of_nat (Suc n))"
proof -
  have s: "(fuse p ^^ Suc n) c = (fuse p ^^ n) (fuse p c)"
    by (simp add: funpow_swap1)
  have "elevation (fuse p c) = Fin z" "variance (fuse p c) = Fin (3 / 10)"
    using assms by (simp_all add: fuse_cold measurementVariance_def)
  then have "elevation ((fuse p ^^ n) (fuse p c)) = Fin z \<and>
         variance ((fuse p ^^ n) (fuse p c)) = Fin (3 / 10 * (3 / 10) / (3 / 10 + of_nat n * (3 / 10)))"
    using assms(2) by (intro fuse_iter_observed) auto
  moreover have "3 / 10 * (3 / 10) / (3 / 10 + of_nat n * (3 / 10)) = (3 / 10 / of_nat (Suc n) :: real)"
    by (simp add: field_simps)
  ultimately show ?thesis using s by simp
qed

lemma fuse_corner_unobserved: "fuse corner_point unobserved = observed_cell"
  by (simp add: fuse_def unobserved_def corner_point_def observed_cell_def measurementVariance_def
      packColor_def)

subsection \<open>Cells of the map\<close>

lemma store_cell_fields [simp]:
  "lengthXY (store_cell a b c s) = lengthXY s"
  "resolution (store_cell a b c s) = resolution s"
  "minVariance (store_cell a b c s) = minVariance s"
  "maxVariance (store_cell a b c s) = maxVariance s"
  "timeOfLastUpdate (store_cell a b c s) = timeOfLastUpdate s"
  by (simp_all add: store_cell_def)

lemma has_cell_store [simp]: "has_cell (store_cell a b c s) i j = has_cell s i j"
  by (simp add: has_cell_def store_cell_def inside_def set_coeff_def)

lemma cell_at_store [simp]: "cell_at (store_cell a b c s) a b = c"
  by (cases c) (simp add: cell_at_def store_cell_def set_coeff_def)

lemma store_cell_twice [simp]: "store_cell a b c' (store_cell a b c s) = store_cell a b c' s"
  by (simp add: store_cell_def set_coeff_def)

lemma store_cell_same [simp]: "store_cell a b (cell_at s a b) s = s"
  by (simp add: store_cell_def set_coeff_def cell_at_def)

lemma store_cell_coeff [simp]:
  "coeff (elevationData (store_cell a b c s)) a b = elevation c"
  "coeff (varianceData (store_cell a b c s)) a b = variance c"
  "coeff (varianceDataX (store_cell a b c s)) a b = varianceX c"
  "coeff (varianceDataY (store_cell a b c s)) a b = varianceY c"
  "coeff (colorData (store_cell a b c s)) a b = color c"
  by (simp_all add: store_cell_def set_coeff_def)

lemma addPoints_replicate:
  assumes "getIndexFromPosition env (px p, py p) (lengthXY s) (resolution s) = Some (i, j)"
    and "has_cell s i j"
  shows "addPoints env (replicate n p) s =
           Some (store_cell (nat i) (nat j) ((fuse p ^^ n) (cell_at s (nat i) (nat j))) s)"
  using assms
proof (induction n arbitrary: s)
  case 0
  then show ?case by simp
next
  case (Suc n)
  let ?s1 = "store_cell (nat i) (nat j) (fuse p (cell_at s (nat i) (nat j))) s"
  have "addPoints env (replicate (Suc n) p) s = addPoints env (replicate n p) ?s1"
    using Suc.prems by simp
  also have "\<dots> = Some (store_cell (nat i) (nat j) ((fuse p ^^ n) (cell_at ?s1 (nat i) (nat j))) ?s1)"
    using Suc.prems by (intro Suc.IH) simp_all
  also have "\<dots> = Some (store_cell (nat i) (nat j) ((fuse p ^^ Suc n) (cell_at s (nat i) (nat j))) s)"
    by (simp add: funpow_swap1)
  finally show ?case .
qed

subsection \<open>The process noise step\<close>

lemma updateProcessNoise_ok: "fst (updateProcessNoise t s)"
  by (simp add: updateProcessNoise_def Let_def)

lemma grow_fields [simp]:
  "minVariance (grow t s) = minVariance s"
  "maxVariance (grow t s) = maxVariance s"
  "elevationData (grow t s) = elevationData s"
  "colorData (grow t s) = colorData s"
  "timeOfLastUpdate (grow t s) = timeOfLastUpdate s"
  by (simp_all add: grow_def updateProcessNoise_def Let_def)

lemma grow_coeff:
  "coeff (varianceData (grow t s)) i j =
     VarianceClampOperator (minVariance s) (maxVariance s) (dadd (coeff (varianceData s) i j) processNoise)"
  "coeff (varianceDataX (grow t s)) i j = dadd (coeff (varianceDataX s) i j) processNoise"
  "coeff (varianceDataY (grow t s)) i j = dadd (coeff (varianceDataY s) i j) processNoise"
  by (simp_all add: grow_def updateProcessNoise_def Let_def unaryExpr_def)

lemma grow_iter_X:
  assumes "coeff (varianceDataX s) i j = Fin a"
  shows "coeff (varianceDataX ((grow t ^^ n) s)) i j = Fin (a + of_nat n * (5 / 1000))"
proof (induction n)
  case 0
  show ?case using assms by simp
next
  case (Suc n)
  then show ?case
    by (simp add: grow_coeff processNoise_def algebra_simps)
qed

lemma grow_iter_maxVariance [simp]: "maxVariance ((grow t ^^ n) s) = maxVariance s"
  by (induction n) simp_all

subsection \<open>The examples\<close>

lemma fromSec_half: "fromSec (1 / 2) = 500000000"
  by (simp add: fromSec_def round_def)

lemma period_quarter: "duration_scale 500000000 (1 / 2) = 250000000"
  by (simp add: duration_scale_def toSec_def fromSec_def round_def)

lemma cast_300: "static_cast_int 300 = Some 300"
  by (simp add: static_cast_int_def)

lemma construct_default:
  "constructElevationMap no_parameters now fresh0 =
     Some (default_map, 250000000,
       [Log Info ''StarlETH elevation map node started.'',
        Log Debug ''Elevation map matrix resized to %i rows and %i columns.'',
        SendTransform (8 / 10, 0, 0) now ''/map'' ''/elevation_map'',
        Log Debug ''Published transform for elevation map in parent frame at time %f.'',
        Log Info ''StarlETH elevation map node initialized.''])"
  by (simp add: constructElevationMap_def readParameters_def no_parameters_def param_def initialize_def
      resize_def reset_def fromSec_half period_quarter cast_300 broadcastElevationMapTransform_def
      resizeM_def setConstant_def empty_matrix_def fresh0_def default_map_def)

lemma corner_index:
  "getIndexFromPosition (example_env ok n) (px corner_point, py corner_point)
     (lengthXY default_map) (resolution default_map) = Some (0, 0)"
  by (simp add: example_env_def corner_point_def default_map_def centered_index_def)

lemma has_cell_default: "has_cell default_map 0 0"
  by (simp add: has_cell_def default_map_def inside_def)

lemma cell_at_default: "cell_at default_map 0 0 = unobserved"
  by (simp add: cell_at_def default_map_def unobserved_def)

lemma grow_ids [simp]:
  "elevationMapFrameId (grow t s) = elevationMapFrameId s"
  "parentFrameId (grow t s) = parentFrameId s"
  "sensorCutoffDepth (grow t s) = sensorCutoffDepth s"
  "maxNoUpdateDuration (grow t s) = maxNoUpdateDuration s"
  "lengthXY (grow t s) = lengthXY s"
  "resolution (grow t s) = resolution s"
  by (simp_all add: grow_def updateProcessNoise_def Let_def)

lemma updateProcessNoise_grow: "updateProcessNoise t s = (True, grow t s)"
  by (simp add: grow_def updateProcessNoise_def Let_def)

lemma setTime_fields [simp]:
  "lengthXY (setTimeOfLastUpdate t s) = lengthXY s"
  "resolution (setTimeOfLastUpdate t s) = resolution s"
  "elevationData (setTimeOfLastUpdate t s) = elevationData s"
  "varianceData (setTimeOfLastUpdate t s) = varianceData s"
  "varianceDataX (setTimeOfLastUpdate t s) = varianceDataX s"
  "varianceDataY (setTimeOfLastUpdate t s) = varianceDataY s"
  "colorData (setTimeOfLastUpdate t s) = colorData s"
  "minVariance (setTimeOfLastUpdate t s) = minVariance s"
  "maxVariance (setTimeOfLastUpdate t s) = maxVariance s"
  "maxNoUpdateDuration (setTimeOfLastUpdate t s) = maxNoUpdateDuration s"
  "elevationMapFrameId (setTimeOfLastUpdate t s) = elevationMapFrameId s"
  "timeOfLastUpdate (setTimeOfLastUpdate t s) = t"
  by (simp_all add: setTimeOfLastUpdate_def)

lemma has_cell_prepared [simp]: "has_cell (setTimeOfLastUpdate t (grow u s)) i j = has_cell s i j"
  by (simp add: has_cell_def inside_def grow_def updateProcessNoise_def Let_def unaryExpr_def)

lemma store_cell_time [simp]:
  "maxNoUpdateDuration (store_cell a b c s) = maxNoUpdateDuration s"
  by (simp add: store_cell_def)

subsection \<open>The callbacks\<close>

lemma callback_lookup_fails:
  assumes "lookupTransform env (elevationMapFrameId s) (frame_id cloud) (stamp cloud) = None"
  shows "pointCloudCallback env cloud s =
    Some (setTimeOfLastUpdate (stamp cloud) (grow (stamp cloud) s),
      callbackPrefix (stamp cloud) s @
      [Log Debug ''ElevationMap: cleanPointCloud() reduced point cloud to %i points.'',
       Log Error ''%s'',
       Log Error ''ElevationMap: Point cloud transform failed for time stamp %f.''] @
      publishEvents env (setTimeOfLastUpdate (stamp cloud) (grow (stamp cloud) s)))"
  using assms
  by (simp add: pointCloudCallback_def callbackProcedure_def updateProcessNoise_grow
      broadcastElevationMapTransform_def errorUnless_def cleanPointCloud_def
      transformPointCloud_def setTimeOfLastUpdate_def publishElevationMap_def
      callbackPrefix_def publishEvents_def Let_def)

lemma callback_lookup_succeeds:
  assumes "lookupTransform env (elevationMapFrameId s) (frame_id cloud) (stamp cloud) = Some f"
  shows "pointCloudCallback env cloud s =
    (case addPoints env (map (transformPoint f) (filter (passThrough 0 (sensorCutoffDepth s)) (points cloud)))
            (setTimeOfLastUpdate (stamp cloud) (grow (stamp cloud) s)) of
       None \<Rightarrow> None
     | Some s' \<Rightarrow>
         Some (s',
           callbackPrefix (stamp cloud) s @
           [Log Debug ''ElevationMap: cleanPointCloud() reduced point cloud to %i points.'',
            Log Debug ''ElevationMap: Point cloud transformed for time stamp %f.''] @
           publishEvents env s'))"
  using assms
  by (simp add: pointCloudCallback_def callbackProcedure_def updateProcessNoise_grow
      broadcastElevationMapTransform_def errorUnless_def cleanPointCloud_def
      transformPointCloud_def setTimeOfLastUpdate_def publishElevationMap_def
      callbackPrefix_def publishEvents_def addToElevationMap_def Let_def split: option.splits)

lemma no_publish_prefix: "Publish m \<notin> set (callbackPrefix t s)"
  by (simp add: callbackPrefix_def)



lemma addPoints_time:
  "addPoints env ps s = Some s' \<Longrightarrow>
   timeOfLastUpdate s' = timeOfLastUpdate s \<and> maxNoUpdateDuration s' = maxNoUpdateDuration s"
proof (induction ps arbitrary: s)
  case Nil
  then show ?case by simp
next
  case (Cons point rest)
  show ?case
  proof (cases "getIndexFromPosition env (px point, py point) (lengthXY s) (resolution s)")
    case None
    then show ?thesis using Cons by simp
  next
    case (Some ij)
    obtain i j where ij: "ij = (i, j)" by (cases ij)
    let ?s1 = "store_cell (nat i) (nat j) (fuse point (cell_at s (nat i) (nat j))) s"
    have a: "addPoints env rest ?s1 = Some s'"
      using Cons.prems Some ij by (simp split: if_splits)
    from Cons.IH[OF a] show ?thesis by simp
  qed
qed

lemma callback_time:
  assumes "pointCloudCallback env cloud s = Some (s', ev)"
  shows "timeOfLastUpdate s' = stamp cloud \<and> maxNoUpdateDuration s' = maxNoUpdateDuration s"
proof (cases "lookupTransform env (elevationMapFrameId s) (frame_id cloud) (stamp cloud)")
  case None
  show ?thesis
    using assms unfolding callback_lookup_fails[OF None] by auto
next
  case (Some f)
  let ?s3 = "setTimeOfLastUpdate (stamp cloud) (grow (stamp cloud) s)"
  from assms have "addPoints env (map (transformPoint f)
      (filter (passThrough 0 (sensorCutoffDepth s)) (points cloud))) ?s3 = Some s'"
    unfolding callback_lookup_succeeds[OF Some] by (auto split: option.splits)
  from addPoints_time[OF this] show ?thesis by simp
qed

lemma timer_state: "fst (mapUpdateTimerCallback now time s) = s"
  by (simp add: mapUpdateTimerCallback_def broadcastElevationMapTransform_def)

lemma timer_idle:
  "now - timeOfLastUpdate s < maxNoUpdateDuration s \<Longrightarrow> mapUpdateTimerCallback now time s = (s, [])"
  by (simp add: mapUpdateTimerCallback_def)

lemma timer_stale:
  "maxNoUpdateDuration s \<le> now - timeOfLastUpdate s \<Longrightarrow>
   mapUpdateTimerCallback now time s =
     (s, [Log Debug ''Elevation map is updated without data from the sensor.'',
          SendTransform (elevationMapToParentTransform s) time (parentFrameId s) (elevationMapFrameId s),
          Log Debug ''Published transform for elevation map in parent frame at time %f.''])"
  by (simp add: mapUpdateTimerCallback_def broadcastElevationMapTransform_def errorUnless_def)

lemma timer_broadcasts:
  "broadcastTimes (snd (mapUpdateTimerCallback now time s)) =
     (if maxNoUpdateDuration s \<le> now - timeOfLastUpdate s then [time] else [])"
  by (simp add: timer_idle timer_stale)

lemma construct_rate_two:
  assumes "min_update_rate ps = None \<or> min_update_rate ps = Some 2"
    and "constructElevationMap ps t0 fr = Some (s0, period, ev0)"
  shows "maxNoUpdateDuration s0 = 500000000 \<and> period = 250000000"
proof -
  have r: "param (min_update_rate ps) 2 = (2::real)" using assms(1) by (auto simp add: param_def)
  show ?thesis
    using assms(2)
    by (auto simp add: constructElevationMap_def readParameters_def r initialize_def resize_def reset_def
        fromSec_half period_quarter Let_def split: option.splits if_splits prod.splits)
qed

subsection \<open>The channels \<open>varianceX\<close> and \<open>varianceY\<close>\<close>

lemma fuse_XY: "varianceX (fuse point c) = varianceY (fuse point c)"
  by (simp add: fuse_def Let_def)

lemma store_cell_XY:
  assumes "varianceDataX s = varianceDataY s" and "varianceX c = varianceY c"
  shows "varianceDataX (store_cell i j c s) = varianceDataY (store_cell i j c s)"
  using assms by (simp add: store_cell_def set_coeff_def)

lemma addPoints_XY:
  assumes "addPoints env ps s = Some s'" and "varianceDataX s = varianceDataY s"
  shows "varianceDataX s' = varianceDataY s'"
  using assms
proof (induction ps arbitrary: s)
  case Nil
  then show ?case by simp
next
  case (Cons point rest)
  show ?case
  proof (cases "getIndexFromPosition env (px point, py point) (lengthXY s) (resolution s)")
    case None
    then show ?thesis using Cons by simp
  next
    case (Some ij)
    obtain i j where ij: "ij = (i, j)" by (cases ij)
    let ?s1 = "store_cell (nat i) (nat j) (fuse point (cell_at s (nat i) (nat j))) s"
    have h: "has_cell s i j" and a: "addPoints env rest ?s1 = Some s'"
      using Cons.prems(1) Some ij by (simp_all split: if_splits)
    have "varianceDataX ?s1 = varianceDataY ?s1"
      by (rule store_cell_XY[OF Cons.prems(2) fuse_XY])
    then show ?thesis by (rule Cons.IH[OF a])
  qed
qed

lemma grow_XY:
  assumes "varianceDataX s = varianceDataY s"
  shows "varianceDataX (grow t s) = varianceDataY (grow t s)"
  using assms by (simp add: grow_def updateProcessNoise_def Let_def)

lemma construct_XY:
  assumes "constructElevationMap ps now fr = Some (s, period, ev)"
  shows "varianceDataX s = varianceDataY s"
  using assms
  by (auto simp add: constructElevationMap_def initialize_def resize_def reset_def resizeM_def setConstant_def
      broadcastElevationMapTransform_def Let_def split: option.splits if_splits prod.splits)

lemma callback_XY:
  assumes "pointCloudCallback env cloud s = Some (s', ev)" and "varianceDataX s = varianceDataY s"
  shows "varianceDataX s' = varianceDataY s'"
proof (cases "lookupTransform env (elevationMapFrameId s) (frame_id cloud) (stamp cloud)")
  case None
  show ?thesis
    using assms(1) grow_XY[OF assms(2)] unfolding callback_lookup_fails[OF None] by auto
next
  case (Some f)
  let ?s3 = "setTimeOfLastUpdate (stamp cloud) (grow (stamp cloud) s)"
  have x: "varianceDataX ?s3 = varianceDataY ?s3" using grow_XY[OF assms(2)] by simp
  from assms(1) have "addPoints env (map (transformPoint f)
      (filter (passThrough 0 (sensorCutoffDepth s)) (points cloud))) ?s3 = Some s'"
    unfolding callback_lookup_succeeds[OF Some] by (auto split: option.splits)
  then show ?thesis using x by (rule addPoints_XY)
qed

lemma reachable_XY: "reachable s \<Longrightarrow> varianceDataX s = varianceDataY s"
proof (induction rule: reachable.induct)
  case (constructed ps now fr s period ev)
  then show ?case by (rule construct_XY)
next
  case (cloud s env cloud s' ev)
  then show ?case using callback_XY by blast
next
  case (timer s now time s' ev)
  then show ?case using timer_state[of now time s] by simp
qed

subsection \<open>Casts\<close>


subsection \<open>The first cloud on the default map\<close>

lemma corner_passes: "passThrough 0 (sensorCutoffDepth default_map) corner_point"
  by (simp add: passThrough_def corner_point_def default_map_def)

lemma transform_id: "transformPoint (\<lambda>v. v) p = p"
  by (simp add: transformPoint_def)

lemma cell_at_prepared_default: "cell_at (setTimeOfLastUpdate t (grow u default_map)) 0 0 = unobserved"
  by (simp add: cell_at_def grow_coeff unobserved_def)
     (simp add: default_map_def processNoise_def VarianceClampOperator_def)

lemma first_cloud_on_default:
  "pointCloudCallback (example_env True n) (cloud_of [corner_point]) default_map =
     Some (store_cell 0 0 observed_cell (setTimeOfLastUpdate 600000000 (grow 600000000 default_map)),
       callbackPrefix 600000000 default_map @
       [Log Debug ''ElevationMap: cleanPointCloud() reduced point cloud to %i points.'',
        Log Debug ''ElevationMap: Point cloud transformed for time stamp %f.''] @
       publishEvents (example_env True n)
         (store_cell 0 0 observed_cell (setTimeOfLastUpdate 600000000 (grow 600000000 default_map))))"
proof -
  let ?s3 = "setTimeOfLastUpdate 600000000 (grow 600000000 default_map)"
  have l: "lookupTransform (example_env True n) (elevationMapFrameId default_map)
             (frame_id (cloud_of [corner_point])) (stamp (cloud_of [corner_point])) = Some (\<lambda>v. v)"
    by (simp add: example_env_def)
  have i: "getIndexFromPosition (example_env True n) (px corner_point, py corner_point)
               (lengthXY ?s3) (resolution ?s3) = Some (0, 0)"
    using corner_index[of True n] by simp
  have "addPoints (example_env True n) (replicate 1 corner_point) ?s3 =
        Some (store_cell (nat 0) (nat 0) ((fuse corner_point ^^ 1) (cell_at ?s3 (nat 0) (nat 0))) ?s3)"
    by (rule addPoints_replicate[OF i]) (simp add: has_cell_default)
  then have a: "addPoints (example_env True n) [corner_point] ?s3 = Some (store_cell 0 0 observed_cell ?s3)"
    by (simp add: cell_at_prepared_default fuse_corner_unobserved)
  show ?thesis
    unfolding callback_lookup_succeeds[OF l]
    using a by (simp add: cloud_of_def corner_passes transform_id)
qed

lemma reachable_default: "reachable default_map"
  using construct_default[of 0] by (rule reachable.constructed)

lemma reachable_first_cloud:
  "reachable (store_cell 0 0 observed_cell (setTimeOfLastUpdate 600000000 (grow 600000000 default_map)))"
  using reachable_default first_cloud_on_default[of 1] by (rule reachable.cloud)

section \<open>The properties of the specification\<close>

text \<open>
  C1 (amended). The process noise step never fails and clamps the channel \<open>variance\<close>:
  when \<open>minVariance \<le> maxVariance\<close>, every coefficient of \<open>varianceData\<close> that is a number
  after the step lies in \<open>[minVariance, maxVariance]\<close>, and a coefficient is not-a-number
  after the step exactly when it was before. This holds from any state, so after any
  sequence of operations that ends with this step.
\<close>

theorem growth_clamps_variance:
  assumes "minVariance s \<le> maxVariance s"
  shows "fst (updateProcessNoise t s) \<and>
    (\<forall>i j. (isnan (coeff (varianceData (snd (updateProcessNoise t s))) i j) \<longleftrightarrow>
              isnan (coeff (varianceData s) i j)) \<and>
       (\<forall>v. coeff (varianceData (snd (updateProcessNoise t s))) i j = Fin v \<longrightarrow>
          minVariance (snd (updateProcessNoise t s)) \<le> v \<and> v \<le> maxVariance (snd (updateProcessNoise t s))))"
proof -
  have "isnan (coeff (varianceData (grow t s)) i j) \<longleftrightarrow> isnan (coeff (varianceData s) i j)" for i j
    by (cases "coeff (varianceData s) i j")
       (simp_all add: grow_coeff VarianceClampOperator_def processNoise_def)
  moreover have "minVariance s \<le> v \<and> v \<le> maxVariance s"
    if "coeff (varianceData (grow t s)) i j = Fin v" for i j v
    using that assms
    by (cases "coeff (varianceData s) i j")
       (auto simp add: grow_coeff VarianceClampOperator_def processNoise_def split: if_splits)
  ultimately show ?thesis
    using updateProcessNoise_ok[of t s] grow_fields(1,2)[of t s] unfolding grow_def by auto
qed

theorem growth_clamps_variance_witness:
  "minVariance (store_cell 0 0 observed_cell default_map) \<le> maxVariance (store_cell 0 0 observed_cell default_map) \<and>
   coeff (varianceData (snd (updateProcessNoise 0 (store_cell 0 0 observed_cell default_map)))) 0 0 = Fin (61 / 200) \<and>
   minVariance (snd (updateProcessNoise 0 (store_cell 0 0 observed_cell default_map))) \<le> 61 / 200 \<and>
   61 / 200 \<le> maxVariance (snd (updateProcessNoise 0 (store_cell 0 0 observed_cell default_map)))"
proof -
  let ?s = "store_cell 0 0 observed_cell default_map"
  have h: "minVariance ?s \<le> maxVariance ?s" by (simp add: default_map_def)
  have v: "coeff (varianceData (snd (updateProcessNoise 0 ?s))) 0 0 = Fin (61 / 200)"
    using grow_coeff(1)[of 0 ?s 0 0]
    by (simp add: grow_def observed_cell_def processNoise_def VarianceClampOperator_def default_map_def)
  from growth_clamps_variance[OF h, of 0] v h show ?thesis by blast
qed

text \<open>
  C1 as stated fails. On the default map (\<open>minVariance = 0.001\<close>, \<open>maxVariance = 0.5\<close>) a
  cloud of 301 points in one cell leaves that cell with the variance \<open>0.3 / 301\<close>, below
  \<open>minVariance\<close>: fusion does not clamp. And after one point in a cell and 41 process noise
  steps the value of \<open>varianceX\<close> in that cell is \<open>0.505\<close>, above \<open>maxVariance\<close>: the step
  clamps \<open>varianceData\<close> only.
\<close>

theorem variance_bounds_counterexample:
  "(case addToElevationMap (example_env True 1) (cloud_of (replicate 301 corner_point)) default_map of
      Some (ok, s') \<Rightarrow> dless (coeff (varianceData s') 0 0) (Fin (minVariance s'))
    | None \<Rightarrow> False) \<and>
   (case addToElevationMap (example_env True 1) (cloud_of [corner_point]) default_map of
      Some (ok, s') \<Rightarrow> dless (Fin (maxVariance s')) (coeff (varianceDataX ((grow 0 ^^ 41) s')) 0 0)
    | None \<Rightarrow> False)"
proof -
  have "variance ((fuse corner_point ^^ Suc 300) unobserved) = Fin (3 / 10 / of_nat (Suc 300))"
    by (intro conjunct2[OF fuse_iter_unobserved]) (simp_all add: unobserved_def corner_point_def)
  then have v: "variance ((fuse corner_point ^^ 301) unobserved) = Fin (3 / 3010)"
    by simp
  have "addPoints (example_env True 1) (replicate 301 corner_point) default_map =
      Some (store_cell (nat 0) (nat 0) ((fuse corner_point ^^ 301) (cell_at default_map (nat 0) (nat 0))) default_map)"
    by (rule addPoints_replicate[OF corner_index]) (simp add: has_cell_default)
  then have one: "(case addToElevationMap (example_env True 1) (cloud_of (replicate 301 corner_point)) default_map of
      Some (ok, s') \<Rightarrow> dless (coeff (varianceData s') 0 0) (Fin (minVariance s'))
    | None \<Rightarrow> False)"
    using v by (simp add: addToElevationMap_def cloud_of_def cell_at_default) (simp add: default_map_def)
  have a: "addPoints (example_env True 1) [corner_point] default_map = Some (store_cell 0 0 observed_cell default_map)"
    using addPoints_replicate[OF corner_index, of True 1 1] has_cell_default
    by (simp add: cell_at_default fuse_corner_unobserved)
  have "coeff (varianceDataX ((grow 0 ^^ 41) (store_cell 0 0 observed_cell default_map))) 0 0
          = Fin (3 / 10 + of_nat 41 * (5 / 1000))"
    by (rule grow_iter_X) (simp add: observed_cell_def)
  then have two: "(case addToElevationMap (example_env True 1) (cloud_of [corner_point]) default_map of
      Some (ok, s') \<Rightarrow> dless (Fin (maxVariance s')) (coeff (varianceDataX ((grow 0 ^^ 41) s')) 0 0)
    | None \<Rightarrow> False)"
    using a by (simp add: addToElevationMap_def cloud_of_def) (simp add: default_map_def)
  from one two show ?thesis by (rule conjI)
qed

text \<open>
  C2. In the branch of a cell that was observed before, \<open>varianceX\<close> and \<open>varianceY\<close> are
  computed from the variance that this very step has just written: with the prior
  variance \<open>v\<close> and the measurement variance \<open>mv\<close>, the cell ends with
  \<open>variance' = mv * v / (mv + v)\<close> and
  \<open>varianceX = varianceY = mv * variance' / (mv + variance')\<close>, which for \<open>v > 0\<close> is not
  the value \<open>mv * v / (mv + v)\<close> that the prior variance would give.
\<close>

theorem fusion_variance_order:
  assumes "\<not> isnan (elevation c)"
    and "variance c = Fin v"
    and "0 \<le> v"
    and "measurementVariance = Fin mv"
  shows "variance (fuse point c) = Fin (mv * v / (mv + v)) \<and>
         varianceX (fuse point c) = Fin (mv * (mv * v / (mv + v)) / (mv + mv * v / (mv + v))) \<and>
         varianceY (fuse point c) = Fin (mv * (mv * v / (mv + v)) / (mv + mv * v / (mv + v))) \<and>
         (0 < v \<longrightarrow> varianceX (fuse point c) \<noteq> Fin (mv * v / (mv + v)) \<and>
                    varianceY (fuse point c) \<noteq> Fin (mv * v / (mv + v)))"
proof -
  have mv: "mv = 3 / 10" using assms(4) by (simp add: measurementVariance_def)
  note f = fuse_variances[OF assms(1-3), of point]
  have "3 / 10 * (3 / 10 * v / (3 / 10 + v)) / (3 / 10 + 3 / 10 * v / (3 / 10 + v)) \<noteq> 3 / 10 * v / (3 / 10 + v)"
    if "0 < v"
  proof -
    have "3 / 10 * (3 / 10 * v / (3 / 10 + v)) / (3 / 10 + 3 / 10 * v / (3 / 10 + v)) = 3 / 10 * v / ((3 / 10 + v) + v)"
      using that by (intro harmonic_step) auto
    moreover have "3 / 10 * v / ((3 / 10 + v) + v) < 3 / 10 * v / (3 / 10 + v)"
      using that by (intro divide_strict_left_mono) (auto intro: mult_pos_pos)
    ultimately show ?thesis by linarith
  qed
  then show ?thesis using f by (simp add: mv)
qed

theorem fusion_variance_order_witness:
  "\<not> isnan (elevation observed_cell) \<and> variance observed_cell = Fin (3 / 10) \<and>
   measurementVariance = Fin (3 / 10) \<and>
   variance (fuse corner_point observed_cell) = Fin (3 / 20) \<and>
   varianceX (fuse corner_point observed_cell) = Fin (1 / 10) \<and>
   varianceY (fuse corner_point observed_cell) = Fin (1 / 10)"
proof -
  have h: "\<not> isnan (elevation observed_cell)" "variance observed_cell = Fin (3 / 10)"
    "(0::real) \<le> 3 / 10" "measurementVariance = Fin (3 / 10)"
    by (simp_all add: observed_cell_def measurementVariance_def)
  from fusion_variance_order[OF h, of corner_point] h show ?thesis by simp
qed

text \<open>
  C3. A cloud of one point that falls into a cell whose elevation is not-a-number: after
  \<open>addToElevationMap\<close> the elevation of the cell is the \<open>z\<close> of the point and the three
  variances of the cell are \<open>measurementVariance\<close>, which is \<open>0.3\<close>.
\<close>

theorem cold_start:
  assumes "points cloud = [point]"
    and "getIndexFromPosition env (px point, py point) (lengthXY s) (resolution s) = Some (i, j)"
    and "has_cell s i j"
    and "isnan (coeff (elevationData s) (nat i) (nat j))"
  shows "\<exists>s'. addToElevationMap env cloud s = Some (True, s') \<and>
           coeff (elevationData s') (nat i) (nat j) = pz point \<and>
           coeff (varianceData s') (nat i) (nat j) = measurementVariance \<and>
           coeff (varianceDataX s') (nat i) (nat j) = measurementVariance \<and>
           coeff (varianceDataY s') (nat i) (nat j) = measurementVariance \<and>
           measurementVariance = Fin (3 / 10)"
proof -
  let ?c = "cell_at s (nat i) (nat j)"
  have n: "isnan (elevation ?c)" using assms(4) by (simp add: cell_at_def)
  have "addToElevationMap env cloud s = Some (True, store_cell (nat i) (nat j) (fuse point ?c) s)"
    using assms(1-3) by (simp add: addToElevationMap_def)
  then show ?thesis
    by (simp add: fuse_cold[OF n] measurementVariance_def)
qed

theorem cold_start_witness:
  "points (cloud_of [corner_point]) = [corner_point] \<and>
   getIndexFromPosition (example_env True 1) (px corner_point, py corner_point)
     (lengthXY default_map) (resolution default_map) = Some (0, 0) \<and>
   has_cell default_map 0 0 \<and>
   isnan (coeff (elevationData default_map) (nat 0) (nat 0)) \<and>
   (\<exists>s'. addToElevationMap (example_env True 1) (cloud_of [corner_point]) default_map = Some (True, s') \<and>
      coeff (elevationData s') 0 0 = Fin 1 \<and>
      coeff (varianceData s') 0 0 = Fin (3 / 10) \<and>
      coeff (varianceDataX s') 0 0 = Fin (3 / 10) \<and>
      coeff (varianceDataY s') 0 0 = Fin (3 / 10))"
proof -
  have h1: "points (cloud_of [corner_point]) = [corner_point]" by (simp add: cloud_of_def)
  have h4: "isnan (coeff (elevationData default_map) (nat 0) (nat 0))" by (simp add: default_map_def)
  from cold_start[OF h1 corner_index has_cell_default h4, of True 1]
  obtain s' where s': "addToElevationMap (example_env True 1) (cloud_of [corner_point]) default_map = Some (True, s')"
    "coeff (elevationData s') (nat 0) (nat 0) = pz corner_point"
    "coeff (varianceData s') (nat 0) (nat 0) = measurementVariance"
    "coeff (varianceDataX s') (nat 0) (nat 0) = measurementVariance"
    "coeff (varianceDataY s') (nat 0) (nat 0) = measurementVariance"
    "measurementVariance = Fin (3 / 10)"
    by blast
  have e: "pz corner_point = Fin 1" by (simp add: corner_point_def)
  have "\<exists>s'. addToElevationMap (example_env True 1) (cloud_of [corner_point]) default_map = Some (True, s') \<and>
      coeff (elevationData s') 0 0 = Fin 1 \<and>
      coeff (varianceData s') 0 0 = Fin (3 / 10) \<and>
      coeff (varianceDataX s') 0 0 = Fin (3 / 10) \<and>
      coeff (varianceDataY s') 0 0 = Fin (3 / 10)"
    using s' e by (intro exI[of _ s']) simp
  then show ?thesis using h1 corner_index[of True 1] has_cell_default h4
    by blast
qed








text \<open>
  C6 (amended). With a maximal duration without update of \<open>0.5 s\<close>: a firing of the timer
  never changes the state; it broadcasts the transform once, stamped with its second
  reading of the clock, when \<open>now - timeOfLastUpdate \<ge> maxNoUpdateDuration\<close> and sends no
  transform otherwise. So the firings \<open>0.25 s\<close> and \<open>0.5 s\<close> after the last update
  broadcast exactly once, at \<open>0.5 s\<close>.
  A cloud sets the time of the last update to its stamp, and a firing less than \<open>0.5 s\<close>
  after that stamp does nothing. With the minimal update rate \<open>2.0\<close> (set or by default)
  the constructor sets \<open>maxNoUpdateDuration\<close> to \<open>0.5 s\<close> and the period of the timer to
  \<open>0.25 s\<close>, half of it.
\<close>

theorem watchdog_per_firing:
  assumes "maxNoUpdateDuration s = 500000000"
  shows "fst (mapUpdateTimerCallback now time s) = s \<and>
    broadcastTimes (snd (mapUpdateTimerCallback now time s)) =
      (if maxNoUpdateDuration s \<le> now - timeOfLastUpdate s then [time] else []) \<and>
    broadcastTimes (timerFirings [timeOfLastUpdate s + 250000000, timeOfLastUpdate s + 500000000] s) =
      [timeOfLastUpdate s + 500000000] \<and>
    (\<forall>env cloud s' ev. pointCloudCallback env cloud s = Some (s', ev) \<longrightarrow>
       timeOfLastUpdate s' = stamp cloud \<and> maxNoUpdateDuration s' = 500000000 \<and>
       (\<forall>later time'. later - stamp cloud < 500000000 \<longrightarrow>
          mapUpdateTimerCallback later time' s' = (s', []))) \<and>
    (\<forall>ps t0 fr s0 period ev0.
       (min_update_rate ps = None \<or> min_update_rate ps = Some 2) \<and>
       constructElevationMap ps t0 fr = Some (s0, period, ev0) \<longrightarrow>
       maxNoUpdateDuration s0 = 500000000 \<and> period = 250000000 \<and> 2 * period = maxNoUpdateDuration s0)"
proof -
  have one: "fst (mapUpdateTimerCallback now time s) = s" by (rule timer_state)
  have three: "broadcastTimes (timerFirings [timeOfLastUpdate s + 250000000, timeOfLastUpdate s + 500000000] s) =
      [timeOfLastUpdate s + 500000000]"
    using assms by (simp add: timer_idle timer_stale)
  have four: "timeOfLastUpdate s' = stamp cloud \<and> maxNoUpdateDuration s' = 500000000 \<and>
       (\<forall>later time'. later - stamp cloud < 500000000 \<longrightarrow>
          mapUpdateTimerCallback later time' s' = (s', []))"
    if "pointCloudCallback env cloud s = Some (s', ev)" for env cloud s' ev
    using callback_time[OF that] assms by (simp add: timer_idle)
  have five: "maxNoUpdateDuration s0 = 500000000 \<and> period = 250000000 \<and> 2 * period = maxNoUpdateDuration s0"
    if "(min_update_rate ps = None \<or> min_update_rate ps = Some 2) \<and>
       constructElevationMap ps t0 fr = Some (s0, period, ev0)" for ps t0 fr s0 period ev0
    using construct_rate_two[of ps t0 fr s0 period ev0] that by simp
  from one timer_broadcasts[of now time s] three four five show ?thesis by blast
qed

theorem watchdog_per_firing_witness:
  "maxNoUpdateDuration default_map = 500000000 \<and>
   broadcastTimes (snd (mapUpdateTimerCallback 250000000 250000001 default_map)) = [] \<and>
   broadcastTimes (snd (mapUpdateTimerCallback 500000000 500000001 default_map)) = [500000001] \<and>
   broadcastTimes (timerFirings [250000000, 500000000] default_map) = [500000000] \<and>
   (\<exists>s' ev. pointCloudCallback (example_env True 1) (cloud_of [corner_point]) default_map = Some (s', ev) \<and>
      timeOfLastUpdate s' = 600000000 \<and> mapUpdateTimerCallback 750000000 750000001 s' = (s', [])) \<and>
   (\<exists>s0 ev0. constructElevationMap no_parameters 0 fresh0 = Some (s0, 250000000, ev0) \<and>
      maxNoUpdateDuration s0 = 500000000)"
proof -
  have h: "maxNoUpdateDuration default_map = 500000000" by (simp add: default_map_def)
  have t: "timeOfLastUpdate default_map = 0" by (simp add: default_map_def)
  note w = watchdog_per_firing[OF h]
  have a: "broadcastTimes (snd (mapUpdateTimerCallback 250000000 250000001 default_map)) = []"
    using w[of 250000000 250000001] by (simp add: h t)
  have b: "broadcastTimes (snd (mapUpdateTimerCallback 500000000 500000001 default_map)) = [500000001]"
    using w[of 500000000 500000001] by (simp add: h t)
  have c: "broadcastTimes (timerFirings [250000000, 500000000] default_map) = [500000000]"
    using w[of 0 0] by (simp add: t del: timerFirings.simps)
  have st: "stamp (cloud_of [corner_point]) = 600000000" by (simp add: cloud_of_def)
  let ?s1 = "store_cell 0 0 observed_cell (setTimeOfLastUpdate 600000000 (grow 600000000 default_map))"
  from w[of 0 0] first_cloud_on_default[of 1]
  have "timeOfLastUpdate ?s1 = stamp (cloud_of [corner_point]) \<and> maxNoUpdateDuration ?s1 = 500000000 \<and>
       (\<forall>later time'. later - stamp (cloud_of [corner_point]) < 500000000 \<longrightarrow>
          mapUpdateTimerCallback later time' ?s1 = (?s1, []))"
    by blast
  then have "timeOfLastUpdate ?s1 = 600000000 \<and> mapUpdateTimerCallback 750000000 750000001 ?s1 = (?s1, [])"
    unfolding st by simp
  with first_cloud_on_default[of 1]
  have d: "\<exists>s' ev. pointCloudCallback (example_env True 1) (cloud_of [corner_point]) default_map = Some (s', ev) \<and>
      timeOfLastUpdate s' = 600000000 \<and> mapUpdateTimerCallback 750000000 750000001 s' = (s', [])"
    by blast
  have e: "\<exists>s0 ev0. constructElevationMap no_parameters 0 fresh0 = Some (s0, 250000000, ev0) \<and>
      maxNoUpdateDuration s0 = 500000000"
    using construct_default[of 0] h by blast
  from h a b c d e show ?thesis by blast
qed

text \<open>
  C6 as stated fails: "exactly one" broadcast while stale is not what the timer does. On
  the default map (last update at \<open>0\<close>) the firings at \<open>0.2 s\<close> and \<open>0.45 s\<close>, one period
  apart, broadcast nothing, so a cloud at \<open>0.6 s\<close> ends a stale interval without any
  broadcast; and the firings at \<open>0.25 s\<close>, \<open>0.5 s\<close> and \<open>0.75 s\<close> broadcast twice while no
  cloud arrives.
\<close>

theorem watchdog_counterexample:
  "broadcastTimes (timerFirings [200000000, 450000000] default_map) = [] \<and>
   broadcastTimes (timerFirings [250000000, 500000000, 750000000] default_map) = [500000000, 750000000]"
  by (simp add: timer_idle timer_stale default_map_def)



text \<open>
  C8 (amended). When the transform lookup fails, the callback returns, has logged the
  error and has fused nothing: the state is the one after the process noise step with the
  time of the last update set to the stamp of the cloud. The channels \<open>elevation\<close> and
  \<open>color\<close> are unchanged; the three variance channels hold the values that the process
  noise step gave them.
\<close>

theorem transform_failure_keeps_growth:
  assumes "lookupTransform env (elevationMapFrameId s) (frame_id cloud) (stamp cloud) = None"
  shows "\<exists>s' ev. pointCloudCallback env cloud s = Some (s', ev) \<and>
           s' = setTimeOfLastUpdate (stamp cloud) (snd (updateProcessNoise (stamp cloud) s)) \<and>
           Log Error ''ElevationMap: Point cloud transform failed for time stamp %f.'' \<in> set ev \<and>
           elevationData s' = elevationData s \<and> colorData s' = colorData s \<and>
           (\<forall>i j. coeff (varianceData s') i j =
                    VarianceClampOperator (minVariance s) (maxVariance s)
                      (dadd (coeff (varianceData s) i j) processNoise) \<and>
                  coeff (varianceDataX s') i j = dadd (coeff (varianceDataX s) i j) processNoise \<and>
                  coeff (varianceDataY s') i j = dadd (coeff (varianceDataY s) i j) processNoise)"
  unfolding callback_lookup_fails[OF assms]
  by (simp add: grow_coeff) (simp add: grow_def)

theorem transform_failure_keeps_growth_witness:
  "lookupTransform (example_env False 1) (elevationMapFrameId default_map)
     (frame_id (cloud_of [corner_point])) (stamp (cloud_of [corner_point])) = None \<and>
   (\<exists>s' ev. pointCloudCallback (example_env False 1) (cloud_of [corner_point]) default_map = Some (s', ev) \<and>
      Log Error ''ElevationMap: Point cloud transform failed for time stamp %f.'' \<in> set ev \<and>
      elevationData s' = elevationData default_map \<and> colorData s' = colorData default_map \<and>
      coeff (varianceData s') 0 0 = NaN)"
proof -
  have h: "lookupTransform (example_env False 1) (elevationMapFrameId default_map)
     (frame_id (cloud_of [corner_point])) (stamp (cloud_of [corner_point])) = None"
    by (simp add: example_env_def)
  have n: "VarianceClampOperator (minVariance default_map) (maxVariance default_map)
             (dadd (coeff (varianceData default_map) 0 0) processNoise) = NaN"
    by (simp add: default_map_def VarianceClampOperator_def)
  from transform_failure_keeps_growth[OF h] obtain s' ev where
    "pointCloudCallback (example_env False 1) (cloud_of [corner_point]) default_map = Some (s', ev)"
    "Log Error ''ElevationMap: Point cloud transform failed for time stamp %f.'' \<in> set ev"
    "elevationData s' = elevationData default_map" "colorData s' = colorData default_map"
    "coeff (varianceData s') 0 0 = VarianceClampOperator (minVariance default_map) (maxVariance default_map)
             (dadd (coeff (varianceData default_map) 0 0) processNoise)"
    by blast
  then show ?thesis using h n by auto
qed

text \<open>
  C8 as stated fails: after a first cloud with one point the corner cell has the variance
  \<open>0.3\<close> in all channels; a second cloud whose transform lookup fails leaves it with
  \<open>0.305\<close>.
\<close>

theorem transform_failure_counterexample:
  "(case pointCloudCallback (example_env True 1) (cloud_of [corner_point]) default_map of
      None \<Rightarrow> False
    | Some (s1, ev1) \<Rightarrow>
        (case pointCloudCallback (example_env False 1) (cloud_of [corner_point]) s1 of
           None \<Rightarrow> False
         | Some (s2, ev2) \<Rightarrow>
             coeff (varianceData s1) 0 0 = Fin (3 / 10) \<and>
             coeff (varianceData s2) 0 0 = Fin (61 / 200) \<and>
             coeff (varianceDataX s1) 0 0 = Fin (3 / 10) \<and>
             coeff (varianceDataX s2) 0 0 = Fin (61 / 200)))"
proof -
  let ?s1 = "store_cell 0 0 observed_cell (setTimeOfLastUpdate 600000000 (grow 600000000 default_map))"
  have l: "lookupTransform (example_env False 1) (elevationMapFrameId ?s1)
     (frame_id (cloud_of [corner_point])) (stamp (cloud_of [corner_point])) = None"
    by (simp add: example_env_def)
  have m: "minVariance default_map = 1 / 1000" "maxVariance default_map = 1 / 2"
    by (simp_all add: default_map_def)
  show ?thesis
    apply (simp only: first_cloud_on_default option.case prod.case callback_lookup_fails[OF l])
    apply (simp add: grow_coeff)
    apply (simp add: observed_cell_def processNoise_def VarianceClampOperator_def m)
    done
qed



text \<open>
  C10. In every state of the node the matrices \<open>varianceDataX\<close> and \<open>varianceDataY\<close> have
  the same dimensions and the same coefficients. \<open>reset\<close> sets both to not-a-number
  everywhere, the process noise step adds \<open>0.005\<close> to both, and a fusion step leaves the
  same value in both channels of the cell.
\<close>

theorem varianceX_equals_varianceY:
  assumes "reachable s"
  shows "rows (varianceDataX s) = rows (varianceDataY s) \<and>
         cols (varianceDataX s) = cols (varianceDataY s) \<and>
         (\<forall>i<rows (varianceDataX s). \<forall>j<cols (varianceDataX s).
            coeff (varianceDataX s) i j = coeff (varianceDataY s) i j) \<and>
         (\<forall>i j. coeff (varianceDataX (snd (reset s))) i j = NaN \<and>
                coeff (varianceDataY (snd (reset s))) i j = NaN \<and>
                coeff (varianceDataX (snd (updateProcessNoise t s))) i j =
                  dadd (coeff (varianceDataX s) i j) (Fin (5 / 1000)) \<and>
                coeff (varianceDataY (snd (updateProcessNoise t s))) i j =
                  dadd (coeff (varianceDataY s) i j) (Fin (5 / 1000))) \<and>
         varianceX (fuse point c) = varianceY (fuse point c)"
  using reachable_XY[OF assms] fuse_XY[of point c] grow_coeff(2,3)[of t s]
  by (simp add: reset_def setConstant_def grow_def processNoise_def)

theorem varianceX_equals_varianceY_witness:
  "reachable (store_cell 0 0 observed_cell (setTimeOfLastUpdate 600000000 (grow 600000000 default_map))) \<and>
   coeff (varianceDataX (store_cell 0 0 observed_cell (setTimeOfLastUpdate 600000000 (grow 600000000 default_map)))) 0 0 =
     Fin (3 / 10) \<and>
   coeff (varianceDataY (store_cell 0 0 observed_cell (setTimeOfLastUpdate 600000000 (grow 600000000 default_map)))) 0 0 =
     Fin (3 / 10) \<and>
   rows (varianceDataX (store_cell 0 0 observed_cell (setTimeOfLastUpdate 600000000 (grow 600000000 default_map)))) = 300 \<and>
   rows (varianceDataY (store_cell 0 0 observed_cell (setTimeOfLastUpdate 600000000 (grow 600000000 default_map)))) = 300"
proof -
  let ?s = "store_cell 0 0 observed_cell (setTimeOfLastUpdate 600000000 (grow 600000000 default_map))"
  have x: "coeff (varianceDataX ?s) 0 0 = Fin (3 / 10)" by (simp add: observed_cell_def)
  have r: "rows (varianceDataX ?s) = 300" "cols (varianceDataX ?s) = 300"
    by (simp_all add: store_cell_def set_coeff_def grow_def updateProcessNoise_def Let_def
        unaryExpr_def default_map_def)
  from varianceX_equals_varianceY[OF reachable_first_cloud]
  have q: "rows (varianceDataX ?s) = rows (varianceDataY ?s)"
    and a: "\<forall>i<rows (varianceDataX ?s). \<forall>j<cols (varianceDataX ?s).
            coeff (varianceDataX ?s) i j = coeff (varianceDataY ?s) i j"
    by blast+
  have "(0::nat) < 300" by simp
  then have e: "coeff (varianceDataX ?s) 0 0 = coeff (varianceDataY ?s) 0 0"
    using a unfolding r by blast
  show ?thesis using x e r(1) q reachable_first_cloud by metis
qed

end
